theory Spec2Isabelle
  imports Main
begin

section \<open>Python values shared by the operations\<close>

text \<open>
  The operations of \<^verbatim>\<open>pyflink/fn_execution/operations.py\<close> signal every failure by
  raising. An exception is a value of the type \<open>error\<close>; a call that may raise
  returns \<open>error + 'a\<close> with \<open>Inl\<close> for the exception. Calls on objects with mutable
  state take the state and return it beside the outcome, so that the state reached
  before a raise is still there after it, as in Python.
\<close>

datatype error =
    Exception string
  | AttributeError string
  | TypeError string
  | IndexError string

text \<open>The module constants (lines 289 to 292 of the source).\<close>

definition NORMAL_RECORD :: int where "NORMAL_RECORD = 0"
definition TRIGGER_TIMER :: int where "TRIGGER_TIMER = 1"
definition REGISTER_EVENT_TIMER :: int where "REGISTER_EVENT_TIMER = 0"
definition REGISTER_PROCESSING_TIMER :: int where "REGISTER_PROCESSING_TIMER = 1"

text \<open>Python's \<^verbatim>\<open>str\<close> of an integer, as \<^verbatim>\<open>"%s" % n\<close> prints it.\<close>

definition digit_char :: "nat \<Rightarrow> char" where
  "digit_char d = ''0123456789'' ! d"

function str_nat :: "nat \<Rightarrow> string" where
  "str_nat n = (if n < 10 then [digit_char n] else str_nat (n div 10) @ [digit_char (n mod 10)])"
  by pat_completeness auto
termination
  by (relation "measure (\<lambda>n. n)") auto

definition str_int :: "int \<Rightarrow> string" where
  "str_int i = (if i < 0 then CHR ''-'' # str_nat (nat (- i)) else str_nat (nat i))"

text \<open>
  Python list indexing \<^verbatim>\<open>xs[i]\<close>: a negative index counts from the end, an index out
  of range raises \<^verbatim>\<open>IndexError\<close>.
\<close>

definition py_index :: "'a list \<Rightarrow> int \<Rightarrow> error + 'a" where
  "py_index xs i =
     (if 0 \<le> i \<and> i < int (length xs) then Inr (xs ! nat i)
      else if - int (length xs) \<le> i \<and> i < 0 then Inr (xs ! nat (int (length xs) + i))
      else Inl (IndexError ''list index out of range''))"


section \<open>The timer service of the non-keyed ProcessFunctionOperation\<close>

text \<open>
  \<^verbatim>\<open>ProcessFunctionOperation.InternalTimerService\<close> (lines 696 to 716). Its only
  attribute is the current watermark, \<^verbatim>\<open>None\<close> until it is set; it has no place to
  keep a timer. Both registration methods raise whatever the timestamp.
\<close>

record InternalTimerService =
  current_watermark_field :: "int option"

definition InternalTimerService_init :: InternalTimerService where
  "InternalTimerService_init = \<lparr>current_watermark_field = None\<rparr>"

definition current_watermark :: "InternalTimerService \<Rightarrow> int option" where
  "current_watermark svc = current_watermark_field svc"

definition set_current_watermark :: "int option \<Rightarrow> InternalTimerService \<Rightarrow> InternalTimerService" where
  "set_current_watermark wm svc = svc\<lparr>current_watermark_field := wm\<rparr>"

definition register_processing_time_timer ::
  "int \<Rightarrow> InternalTimerService \<Rightarrow> (error + unit) \<times> InternalTimerService" where
  "register_processing_time_timer t svc =
     (Inl (Exception ''Register timers is only supported on a keyed stream.''), svc)"

definition register_event_time_timer ::
  "int \<Rightarrow> InternalTimerService \<Rightarrow> (error + unit) \<times> InternalTimerService" where
  "register_event_time_timer t svc =
     (Inl (Exception ''Register timers is only supported on a keyed stream.''), svc)"


section \<open>Setup of the windowed aggregate operation\<close>

text \<open>
  The group window of the serialized function is a protobuf message whose declaration
  (\<^verbatim>\<open>flink_fn_execution_pb2.GroupWindow\<close>) is not among the sources; the record below
  has the fields the operation reads. An enum field of a protobuf message holds an
  integer, and the source ends both of its chains of comparisons with an \<^verbatim>\<open>else\<close>, so
  each enumeration has a constructor for a number that is none of the named members.
\<close>

datatype group_window_type =
    TUMBLING_GROUP_WINDOW
  | SLIDING_GROUP_WINDOW
  | SESSION_GROUP_WINDOW
  | OTHER_GROUP_WINDOW int

datatype named_property =
    WINDOW_START
  | WINDOW_END
  | ROW_TIME_ATTRIBUTE
  | PROC_TIME_ATTRIBUTE
  | OTHER_PROPERTY int

record GroupWindow =
  window_type :: group_window_type
  is_time_window :: bool
  window_size :: int
  is_row_time :: bool
  allowedLateness :: int
  time_field_index :: int
  namedProperties :: "named_property list"

text \<open>
  The assigners and triggers (\<^verbatim>\<open>window_assigner.py\<close>, \<^verbatim>\<open>window_trigger.py\<close>) are built
  by constructor calls; a constructed object is the constructor applied to its
  arguments, in the order of the call.
\<close>

datatype window_assigner =
    TumblingWindowAssigner int int bool
  | CountTumblingWindowAssigner int

datatype window_trigger =
    EventTimeTrigger
  | ProcessingTimeTrigger
  | CountTrigger int

text \<open>
  What \<^verbatim>\<open>create_process_function\<close> hands to \<^verbatim>\<open>GroupWindowAggFunction\<close> from the window:
  the allowed lateness, the assigner, the trigger and the index of the time field. The
  aggregate functions, the key selector, the state backend and the state coder are
  passed on as they were received and are left out. The two assignments before the
  branch on the window type, of \<^verbatim>\<open>_is_time_window\<close> and \<^verbatim>\<open>_namespace_coder\<close>, set the
  attributes that the operation reads when it processes an input.
\<close>

record GroupWindowAggFunction_args =
  arg_allowed_lateness :: int
  arg_window_assigner :: window_assigner
  arg_trigger :: window_trigger
  arg_time_field_index :: int

definition create_process_function :: "GroupWindow \<Rightarrow> error + GroupWindowAggFunction_args" where
  "create_process_function w =
     (if window_type w = TUMBLING_GROUP_WINDOW then
        (let assigner =
               (if is_time_window w
                then TumblingWindowAssigner (window_size w) 0 (is_row_time w)
                else CountTumblingWindowAssigner (window_size w));
             trigger =
               (if is_time_window w
                then (if is_row_time w then EventTimeTrigger else ProcessingTimeTrigger)
                else CountTrigger (window_size w))
         in Inr \<lparr>arg_allowed_lateness = allowedLateness w,
                 arg_window_assigner = assigner,
                 arg_trigger = trigger,
                 arg_time_field_index = time_field_index w\<rparr>)
      else if window_type w = SLIDING_GROUP_WINDOW then
        Inl (Exception ''General Python UDAF in Sliding window will be implemented in FLINK-21629'')
      else
        Inl (Exception ''General Python UDAF in Sessiong window will be implemented in FLINK-21630''))"


subsection \<open>The named-property extractor\<close>

text \<open>
  \<^verbatim>\<open>_create_named_property_function\<close> (lines 517 to 534) collects one expression per
  named property, as source text, and evaluates \<^verbatim>\<open>lambda value: [e1,...,en]\<close>. The four
  texts it can produce are the constructors of \<open>property_expr\<close>, in the order of the
  source: \<^verbatim>\<open>value.start\<close>, \<^verbatim>\<open>value.end\<close>, \<^verbatim>\<open>value.end - 1\<close> and \<^verbatim>\<open>-1\<close>. The
  argument of the lambda is the firing window, an object with the integer attributes
  \<^verbatim>\<open>start\<close> and \<^verbatim>\<open>end\<close>.
\<close>

record TimeWindow =
  window_start :: int
  window_end :: int

datatype property_expr =
    Value_start
  | Value_end
  | Value_end_minus_1
  | Minus_1

fun eval_property_expr :: "TimeWindow \<Rightarrow> property_expr \<Rightarrow> int" where
  "eval_property_expr v Value_start = window_start v"
| "eval_property_expr v Value_end = window_end v"
| "eval_property_expr v Value_end_minus_1 = window_end v - 1"
| "eval_property_expr v Minus_1 = - 1"

text \<open>The loop over the named properties; the first one that is none of the four raises.\<close>

fun named_property_extractor_array :: "named_property list \<Rightarrow> property_expr list \<Rightarrow> error + property_expr list" where
  "named_property_extractor_array [] acc = Inr acc"
| "named_property_extractor_array (WINDOW_START # ps) acc =
     named_property_extractor_array ps (acc @ [Value_start])"
| "named_property_extractor_array (WINDOW_END # ps) acc =
     named_property_extractor_array ps (acc @ [Value_end])"
| "named_property_extractor_array (ROW_TIME_ATTRIBUTE # ps) acc =
     named_property_extractor_array ps (acc @ [Value_end_minus_1])"
| "named_property_extractor_array (PROC_TIME_ATTRIBUTE # ps) acc =
     named_property_extractor_array ps (acc @ [Minus_1])"
| "named_property_extractor_array (OTHER_PROPERTY n # ps) acc =
     Inl (Exception (''Unexpected property '' @ str_int n))"

text \<open>
  The joined text is empty exactly when the array is, and then the function returns
  \<^verbatim>\<open>None\<close> in place of a lambda.
\<close>

definition create_named_property_function ::
  "named_property list \<Rightarrow> error + (TimeWindow \<Rightarrow> int list) option" where
  "create_named_property_function props =
     (case named_property_extractor_array props [] of
        Inl e \<Rightarrow> Inl e
      | Inr exprs \<Rightarrow>
          if exprs \<noteq> [] then Inr (Some (\<lambda>v. map (eval_property_expr v) exprs))
          else Inr None)"

text \<open>The value the specification gives each named property on a window.\<close>

fun named_property_value :: "TimeWindow \<Rightarrow> named_property \<Rightarrow> int" where
  "named_property_value w WINDOW_START = window_start w"
| "named_property_value w WINDOW_END = window_end w"
| "named_property_value w ROW_TIME_ATTRIBUTE = window_end w - 1"
| "named_property_value w PROC_TIME_ATTRIBUTE = - 1"

text \<open>The members of the enumeration that have a name.\<close>

fun is_named_member :: "named_property \<Rightarrow> bool" where
  "is_named_member (OTHER_PROPERTY n) = False"
| "is_named_member p = True"

text \<open>A tumbling event-time window of one second that exposes all four properties.\<close>

definition example_window :: GroupWindow where
  "example_window =
     \<lparr>window_type = TUMBLING_GROUP_WINDOW, is_time_window = True, window_size = 1000,
      is_row_time = True, allowedLateness = 0, time_field_index = 2,
      namedProperties = [WINDOW_START, WINDOW_END, ROW_TIME_ATTRIBUTE, PROC_TIME_ATTRIBUTE]\<rparr>"


section \<open>The shared distinct views of the aggregate operations\<close>

text \<open>
  \<^verbatim>\<open>AbstractStreamGroupAggregateOperation.generate_func\<close>, lines 334 to 342. The
  dictionary \<^verbatim>\<open>distinct_info_dict\<close> is filled by
  \<^verbatim>\<open>extract_user_defined_aggregate_function\<close>, which is not among the sources; the loop
  reads its values in insertion order, each a pair of the list of the indexes of the
  aggregate functions that share one distinct view and the list of their filter
  arguments. The input extractors are objects the loop only passes on, of any type \<open>'x\<close>.
\<close>

record 'x DistinctViewDescriptor =
  dv_input_extractor :: 'x
  dv_filter_args :: "int list"

fun distinct_view_loop ::
  "'x list \<Rightarrow> (int list \<times> int list) list \<Rightarrow> (int \<rightharpoonup> 'x DistinctViewDescriptor)
     \<Rightarrow> error + (int \<rightharpoonup> 'x DistinctViewDescriptor)" where
  "distinct_view_loop input_extractors [] distinct_view_descriptors = Inr distinct_view_descriptors"
| "distinct_view_loop input_extractors ((agg_index_list, filter_arg_list) # rest)
       distinct_view_descriptors =
     (let filter_arg_list' = (if - 1 \<in> set filter_arg_list then [] else filter_arg_list)
      in case py_index agg_index_list 0 of
           Inl e \<Rightarrow> Inl e
         | Inr first \<Rightarrow>
             (case py_index input_extractors first of
                Inl e \<Rightarrow> Inl e
              | Inr extractor \<Rightarrow>
                  distinct_view_loop input_extractors rest
                    (distinct_view_descriptors
                       (first \<mapsto> \<lparr>dv_input_extractor = extractor,
                                   dv_filter_args = filter_arg_list'\<rparr>))))"

definition generate_distinct_view_descriptors ::
  "'x list \<Rightarrow> (int list \<times> int list) list \<Rightarrow> error + (int \<rightharpoonup> 'x DistinctViewDescriptor)" where
  "generate_distinct_view_descriptors input_extractors distinct_info_values =
     distinct_view_loop input_extractors distinct_info_values Map.empty"

text \<open>
  The values are taken to be as the loop of lines 326 to 333 has them built, with one
  call of \<^verbatim>\<open>extract_user_defined_aggregate_function\<close> for each index of
  \<^verbatim>\<open>range(len(serialized_fn.udfs))\<close> and one entry of \<^verbatim>\<open>input_extractors\<close> for each
  index: a group is not empty, its first index is an index of \<^verbatim>\<open>input_extractors\<close>,
  and no index starts two groups.
\<close>

definition well_formed_distinct_info :: "'x list \<Rightarrow> (int list \<times> int list) list \<Rightarrow> bool" where
  "well_formed_distinct_info input_extractors distinct_info_values \<longleftrightarrow>
     list_all (\<lambda>grp. fst grp \<noteq> [] \<and> 0 \<le> hd (fst grp) \<and>
        hd (fst grp) < int (length input_extractors)) distinct_info_values \<and>
     distinct (map (\<lambda>grp. hd (fst grp)) distinct_info_values)"

text \<open>
  The descriptor the specification describes for a group: the input extractor of the
  first function of the group, and no filter arguments as soon as one function of the
  group is called without a filter (filter argument \<open>-1\<close>).
\<close>

definition descriptor_of :: "'x list \<Rightarrow> int list \<times> int list \<Rightarrow> 'x DistinctViewDescriptor" where
  "descriptor_of input_extractors grp =
     \<lparr>dv_input_extractor = input_extractors ! nat (hd (fst grp)),
      dv_filter_args = (if - 1 \<in> set (snd grp) then [] else snd grp)\<rparr>"


section \<open>Rows and the aggregate functions behind the operations\<close>

text \<open>
  A row has its field values (\<^verbatim>\<open>_values\<close>) and a row kind, kept as the number
  \<^verbatim>\<open>get_row_kind().value\<close>. With the Cython extension the windowed operation rebuilds
  the element as an \<^verbatim>\<open>InternalRow\<close> from these two parts.
\<close>

datatype field_value = Null | IntValue int | StrValue string

record Row =
  row_values :: "field_value list"
  row_kind_value :: int

datatype input_row = PlainRow Row | InternalRow "field_value list" int

type_synonym bytes = string

text \<open>
  \<^verbatim>\<open>GroupAggFunction\<close> and \<^verbatim>\<open>GroupTableAggFunction\<close> (modules \<^verbatim>\<open>aggregate_fast\<close>,
  \<^verbatim>\<open>aggregate_slow\<close>) are not among the sources. The operation only calls three of
  their methods, so the function is a parameter: any three methods over any state \<open>'s\<close>
  (the accumulators, the state backend, the buffered output). A method returns its
  result, or the exception it raised, and the state it left.
\<close>

record 's GroupAggFunction =
  process_element :: "Row option \<Rightarrow> 's \<Rightarrow> (error + unit) \<times> 's"
  on_timer :: "Row option \<Rightarrow> 's \<Rightarrow> (error + unit) \<times> 's"
  finish_bundle :: "'s \<Rightarrow> (error + Row list) \<times> 's"


section \<open>The non-windowed aggregate operation\<close>

text \<open>
  An input of \<^verbatim>\<open>AbstractStreamGroupAggregateOperation.process_element_or_timer\<close> is the
  tuple \<^verbatim>\<open>[element_type, element, timestamp, key]\<close>, every field but the first nullable.
\<close>

record input_data =
  element_type :: int
  element :: "Row option"
  timestamp :: "int option"
  key :: "Row option"

text \<open>The loop of lines 360 to 364; an exception of a call ends it.\<close>

fun process_input_datas ::
  "'s GroupAggFunction \<Rightarrow> input_data list \<Rightarrow> 's \<Rightarrow> (error + unit) \<times> 's" where
  "process_input_datas group_agg_function [] s = (Inr (), s)"
| "process_input_datas group_agg_function (input_data # rest) s =
     (case (if element_type input_data = NORMAL_RECORD
            then process_element group_agg_function (element input_data) s
            else on_timer group_agg_function (key input_data) s) of
        (Inl e, s') \<Rightarrow> (Inl e, s')
      | (Inr u, s') \<Rightarrow> process_input_datas group_agg_function rest s')"

definition process_element_or_timer ::
  "'s GroupAggFunction \<Rightarrow> input_data list \<Rightarrow> 's \<Rightarrow> (error + Row list) \<times> 's" where
  "process_element_or_timer group_agg_function input_datas s =
     (case process_input_datas group_agg_function input_datas s of
        (Inl e, s') \<Rightarrow> (Inl e, s')
      | (Inr u, s') \<Rightarrow> finish_bundle group_agg_function s')"

subsection \<open>Observing the calls\<close>

text \<open>
  To state which methods an operation invokes, in which order and with which arguments,
  a function is wrapped so that it keeps a log beside its state: each call appends one
  event, the method with its argument and its outcome, and is otherwise the call of the
  wrapped function.
\<close>

datatype group_event =
    Process_element "Row option" "error + unit"
  | On_timer "Row option" "error + unit"
  | Finish_bundle "error + Row list"

definition recording :: "'s GroupAggFunction \<Rightarrow> ('s \<times> group_event list) GroupAggFunction" where
  "recording f =
     \<lparr>process_element = (\<lambda>row (s, log).
         case process_element f row s of (r, s') \<Rightarrow> (r, (s', log @ [Process_element row r]))),
      on_timer = (\<lambda>k (s, log).
         case on_timer f k s of (r, s') \<Rightarrow> (r, (s', log @ [On_timer k r]))),
      finish_bundle = (\<lambda>(s, log).
         case finish_bundle f s of (r, s') \<Rightarrow> (r, (s', log @ [Finish_bundle r])))\<rparr>"

text \<open>
  The event the specification expects for an input: \<^verbatim>\<open>process_element\<close> with the element
  for a normal record, \<^verbatim>\<open>on_timer\<close> with the key for every other tag.
\<close>

definition dispatch_event :: "input_data \<Rightarrow> error + unit \<Rightarrow> group_event" where
  "dispatch_event input_data outcome =
     (if element_type input_data = NORMAL_RECORD
      then Process_element (element input_data) outcome
      else On_timer (key input_data) outcome)"

text \<open>The events of the loop when it runs on a function: it stops after a raise.\<close>

fun dispatch_events :: "'s GroupAggFunction \<Rightarrow> input_data list \<Rightarrow> 's \<Rightarrow> group_event list" where
  "dispatch_events f [] s = []"
| "dispatch_events f (input_data # rest) s =
     (case (if element_type input_data = NORMAL_RECORD
            then process_element f (element input_data) s
            else on_timer f (key input_data) s) of
        (Inl e, s') \<Rightarrow> [dispatch_event input_data (Inl e)]
      | (Inr u, s') \<Rightarrow> dispatch_event input_data (Inr u) # dispatch_events f rest s')"

text \<open>
  A function to run the operation on: it buffers the rows it is given, drops the buffer
  when a timer fires, rejects a missing element and hands the buffer out at the end of
  the bundle.
\<close>

definition buffering_function :: "(Row list) GroupAggFunction" where
  "buffering_function =
     \<lparr>process_element = (\<lambda>row s.
         case row of None \<Rightarrow> (Inl (TypeError ''element is None''), s)
                   | Some r \<Rightarrow> (Inr (), s @ [r])),
      on_timer = (\<lambda>k s. (Inr (), [])),
      finish_bundle = (\<lambda>s. (Inr s, []))\<rparr>"

definition row_a :: Row where
  "row_a = \<lparr>row_values = [StrValue ''A'', IntValue 5], row_kind_value = 0\<rparr>"

definition row_b :: Row where
  "row_b = \<lparr>row_values = [StrValue ''A'', IntValue 3], row_kind_value = 0\<rparr>"

definition key_a :: Row where
  "key_a = \<lparr>row_values = [StrValue ''A''], row_kind_value = 0\<rparr>"

definition example_input_datas :: "input_data list" where
  "example_input_datas =
     [\<lparr>element_type = 0, element = Some row_a, timestamp = None, key = None\<rparr>,
      \<lparr>element_type = 1, element = None, timestamp = Some 1000, key = Some key_a\<rparr>,
      \<lparr>element_type = 0, element = Some row_b, timestamp = None, key = None\<rparr>]"


section \<open>The windowed aggregate operation\<close>

text \<open>
  Timers. \<^verbatim>\<open>InternalTimerImpl(timestamp, key, namespace)\<close> is a value with the three
  getters; the namespace is the window of the timer, of any type \<open>'w\<close>. The four members
  of \<^verbatim>\<open>TimerOperandType\<close> are those the source names (lines 763 to 781); the
  declaration of the enumeration, which gives each member its number, is not among the
  sources, so an output that holds \<^verbatim>\<open>timer_operand_type.value\<close> holds
  \<open>Operand_value\<close> of the member.
\<close>

record 'w InternalTimer =
  get_timestamp :: "int option"
  get_key :: "field_value list"
  get_namespace :: 'w

datatype TimerOperandType =
    OP_REGISTER_EVENT_TIMER
  | OP_REGISTER_PROC_TIMER
  | OP_DELETE_EVENT_TIMER
  | OP_DELETE_PROC_TIMER

text \<open>
  \<^verbatim>\<open>GroupWindowAggFunction\<close> (modules \<^verbatim>\<open>window_aggregate_fast\<close>,
  \<^verbatim>\<open>window_aggregate_slow\<close>) is not among the sources: the five methods the operation
  calls are parameters over any state \<open>'s\<close>, each returning its result or the exception
  it raised, and the state it left. The state holds, among the rest, the timer requests
  that the calls have accumulated and \<^verbatim>\<open>get_timers\<close> hands out.
\<close>

record ('s, 'w) GroupWindowAggFunction =
  process_watermark :: "int option \<Rightarrow> 's \<Rightarrow> (error + unit) \<times> 's"
  window_process_element :: "input_row option \<Rightarrow> 's \<Rightarrow> (error + Row list) \<times> 's"
  get_timers :: "'s \<Rightarrow> (error + (TimerOperandType \<times> 'w InternalTimer) list) \<times> 's"
  on_event_time :: "'w InternalTimer \<Rightarrow> 's \<Rightarrow> (error + Row list) \<times> 's"
  on_processing_time :: "'w InternalTimer \<Rightarrow> 's \<Rightarrow> (error + Row list) \<times> 's"

text \<open>
  The namespace coder of the state backend (\<^verbatim>\<open>_namespace_coder_impl\<close>), a parameter as
  well: two functions without state that may raise.
\<close>

record 'w namespace_coder =
  encode_nested :: "'w \<Rightarrow> error + bytes"
  decode_nested :: "bytes \<Rightarrow> error + 'w"

text \<open>
  What the operation keeps after \<^verbatim>\<open>create_process_function\<close>: whether the window is a
  time window, the namespace coder and the aggregate function.
\<close>

record ('s, 'w) StreamGroupWindowAggregateOperation =
  op_is_time_window :: bool
  op_namespace_coder :: "'w namespace_coder"
  group_agg_function :: "('s, 'w) GroupWindowAggFunction"

text \<open>
  The input is the tuple \<^verbatim>\<open>(element_type, element, timestamp, watermark, timer_data)\<close>;
  the timer data of a firing timer is \<^verbatim>\<open>(timer_type, key, encoded_namespace)\<close>.
\<close>

record timer_data =
  timer_type :: int
  encoded_key :: "field_value list"
  encoded_namespace :: bytes

record window_input_data =
  w_element_type :: int
  w_element :: "Row option"
  w_timestamp :: "int option"
  w_watermark :: "int option"
  w_timer_data :: "timer_data option"

text \<open>
  The output is a list of Python lists with fields of several types; \<open>py_out\<close> has one
  constructor for each type that occurs.
\<close>

datatype py_out =
    None_out
  | Int_out int
  | Row_out Row
  | Key_out "field_value list"
  | Bytes_out bytes
  | Operand_value TimerOperandType
  | List_out "py_out list"

definition optional_int_out :: "int option \<Rightarrow> py_out" where
  "optional_int_out t = (case t of None \<Rightarrow> None_out | Some n \<Rightarrow> Int_out n)"

text \<open>Line 488 and line 513: \<^verbatim>\<open>[NORMAL_RECORD, result_data, None]\<close>.\<close>

definition normal_record_entry :: "Row \<Rightarrow> py_out" where
  "normal_record_entry result_data = List_out [Int_out NORMAL_RECORD, Row_out result_data, None_out]"

text \<open>
  Lines 498 and 499:
  \<^verbatim>\<open>[TRIGGER_TIMER, None, [timer_operand_type.value, key, timestamp, encoded_window]]\<close>.
\<close>

definition timer_entry :: "TimerOperandType \<Rightarrow> 'w InternalTimer \<Rightarrow> bytes \<Rightarrow> py_out" where
  "timer_entry timer_operand_type internal_timer encoded_window =
     List_out [Int_out TRIGGER_TIMER, None_out,
       List_out [Operand_value timer_operand_type, Key_out (get_key internal_timer),
                 optional_int_out (get_timestamp internal_timer), Bytes_out encoded_window]]"

text \<open>The loop over the timers, lines 491 to 500.\<close>

fun timer_entries ::
  "'w namespace_coder \<Rightarrow> (TimerOperandType \<times> 'w InternalTimer) list \<Rightarrow> error + py_out list" where
  "timer_entries coder [] = Inr []"
| "timer_entries coder ((timer_operand_type, internal_timer) # timers) =
     (case encode_nested coder (get_namespace internal_timer) of
        Inl e \<Rightarrow> Inl e
      | Inr encoded_window \<Rightarrow>
          (case timer_entries coder timers of
             Inl e \<Rightarrow> Inl e
           | Inr entries \<Rightarrow>
               Inr (timer_entry timer_operand_type internal_timer encoded_window # entries)))"

text \<open>
  Lines 482 to 485. With the Cython extension the element is rebuilt from its values
  and its row kind, which raises for an element that is \<^verbatim>\<open>None\<close>; without it the
  element is passed on as it is.
\<close>

definition to_input_row :: "bool \<Rightarrow> Row option \<Rightarrow> error + input_row option" where
  "to_input_row has_cython el =
     (if has_cython then
        (case el of
           None \<Rightarrow> Inl (AttributeError ''NoneType object has no attribute _values'')
         | Some r \<Rightarrow> Inr (Some (InternalRow (row_values r) (row_kind_value r))))
      else Inr (map_option PlainRow el))"

text \<open>
  \<^verbatim>\<open>StreamGroupWindowAggregateOperation.process_element_or_timer\<close>, lines 478 to 515, on
  one input. The module flag \<^verbatim>\<open>has_cython\<close> is a parameter; \<open>s\<close> is the state of the
  aggregate function.
\<close>

definition window_process_element_or_timer ::
  "bool \<Rightarrow> ('s, 'w) StreamGroupWindowAggregateOperation \<Rightarrow> window_input_data \<Rightarrow> 's
     \<Rightarrow> (error + py_out list) \<times> 's" where
  "window_process_element_or_timer has_cython self input_data s =
     (if w_element_type input_data = NORMAL_RECORD then
        (case process_watermark (group_agg_function self) (w_watermark input_data) s of
           (Inl e, s1) \<Rightarrow> (Inl e, s1)
         | (Inr u, s1) \<Rightarrow>
             (case to_input_row has_cython (w_element input_data) of
                Inl e \<Rightarrow> (Inl e, s1)
              | Inr input_row \<Rightarrow>
                  (case window_process_element (group_agg_function self) input_row s1 of
                     (Inl e, s2) \<Rightarrow> (Inl e, s2)
                   | (Inr result_datas, s2) \<Rightarrow>
                       (case get_timers (group_agg_function self) s2 of
                          (Inl e, s3) \<Rightarrow> (Inl e, s3)
                        | (Inr timers, s3) \<Rightarrow>
                            (case timer_entries (op_namespace_coder self) timers of
                               Inl e \<Rightarrow> (Inl e, s3)
                             | Inr timer_datas \<Rightarrow>
                                 (Inr (map normal_record_entry result_datas @ timer_datas), s3))))))
      else
        (case w_timer_data input_data of
           None \<Rightarrow> (Inl (TypeError ''NoneType object is not subscriptable''), s)
         | Some timer_data \<Rightarrow>
             (case decode_nested (op_namespace_coder self) (encoded_namespace timer_data) of
                Inl e \<Rightarrow> (Inl e, s)
              | Inr namespace \<Rightarrow>
                  (let timer = \<lparr>get_timestamp = w_timestamp input_data,
                                get_key = encoded_key timer_data,
                                get_namespace = namespace\<rparr>
                   in case (if timer_type timer_data = REGISTER_EVENT_TIMER
                            then on_event_time (group_agg_function self) timer s
                            else on_processing_time (group_agg_function self) timer s) of
                        (Inl e, s1) \<Rightarrow> (Inl e, s1)
                      | (Inr result_datas, s1) \<Rightarrow>
                          (Inr (map normal_record_entry result_datas), s1)))))"

subsection \<open>Observing the calls of the windowed operation\<close>

datatype 'w window_event =
    Process_watermark "int option" "error + unit"
  | Window_process_element "input_row option" "error + Row list"
  | Get_timers "error + (TimerOperandType \<times> 'w InternalTimer) list"
  | On_event_time "'w InternalTimer" "error + Row list"
  | On_processing_time "'w InternalTimer" "error + Row list"

definition recording_window ::
  "('s, 'w) GroupWindowAggFunction \<Rightarrow> ('s \<times> 'w window_event list, 'w) GroupWindowAggFunction" where
  "recording_window f =
     \<lparr>process_watermark = (\<lambda>wm (s, log).
         case process_watermark f wm s of (r, s') \<Rightarrow> (r, (s', log @ [Process_watermark wm r]))),
      window_process_element = (\<lambda>row (s, log).
         case window_process_element f row s of
           (r, s') \<Rightarrow> (r, (s', log @ [Window_process_element row r]))),
      get_timers = (\<lambda>(s, log).
         case get_timers f s of (r, s') \<Rightarrow> (r, (s', log @ [Get_timers r]))),
      on_event_time = (\<lambda>timer (s, log).
         case on_event_time f timer s of (r, s') \<Rightarrow> (r, (s', log @ [On_event_time timer r]))),
      on_processing_time = (\<lambda>timer (s, log).
         case on_processing_time f timer s of
           (r, s') \<Rightarrow> (r, (s', log @ [On_processing_time timer r])))\<rparr>"

definition recording_operation ::
  "('s, 'w) StreamGroupWindowAggregateOperation
     \<Rightarrow> ('s \<times> 'w window_event list, 'w) StreamGroupWindowAggregateOperation" where
  "recording_operation self =
     \<lparr>op_is_time_window = op_is_time_window self,
      op_namespace_coder = op_namespace_coder self,
      group_agg_function = recording_window (group_agg_function self)\<rparr>"

fun is_get_timers :: "'w window_event \<Rightarrow> bool" where
  "is_get_timers (Get_timers r) = True"
| "is_get_timers ev = False"

fun is_trigger_timer_entry :: "py_out \<Rightarrow> bool" where
  "is_trigger_timer_entry (List_out (Int_out tag # others)) = (tag = TRIGGER_TIMER)"
| "is_trigger_timer_entry entry = False"

text \<open>What a logged call returned: change records, or timer requests.\<close>

fun returned_rows :: "'w window_event \<Rightarrow> Row list" where
  "returned_rows (Window_process_element row (Inr rows)) = rows"
| "returned_rows (On_event_time timer (Inr rows)) = rows"
| "returned_rows (On_processing_time timer (Inr rows)) = rows"
| "returned_rows ev = []"

fun returned_timers :: "'w window_event \<Rightarrow> (TimerOperandType \<times> 'w InternalTimer) list" where
  "returned_timers (Get_timers (Inr timers)) = timers"
| "returned_timers ev = []"


subsection \<open>An aggregate function and a coder to run the windowed operation on\<close>

text \<open>
  The state of the function is the list of the timer requests not yet handed out. An
  element registers an event-time timer for its window and is returned as the change
  record; a firing timer deletes itself; \<^verbatim>\<open>get_timers\<close> hands the requests out and
  empties the list. The coder writes a window name backwards.
\<close>

definition fired_timer :: "string InternalTimer" where
  "fired_timer = \<lparr>get_timestamp = Some 999, get_key = [StrValue ''A''], get_namespace = ''[0,1000)''\<rparr>"

fun row_of :: "input_row \<Rightarrow> Row" where
  "row_of (PlainRow r) = r"
| "row_of (InternalRow vs k) = \<lparr>row_values = vs, row_kind_value = k\<rparr>"

definition timer_buffering_function ::
  "((TimerOperandType \<times> string InternalTimer) list, string) GroupWindowAggFunction" where
  "timer_buffering_function =
     \<lparr>process_watermark = (\<lambda>wm s. (Inr (), s)),
      window_process_element = (\<lambda>row s.
         case row of
           None \<Rightarrow> (Inl (TypeError ''element is None''), s)
         | Some r \<Rightarrow> (Inr [row_of r], s @ [(OP_REGISTER_EVENT_TIMER, fired_timer)])),
      get_timers = (\<lambda>s. (Inr s, [])),
      on_event_time = (\<lambda>timer s. (Inr [], s @ [(OP_DELETE_EVENT_TIMER, timer)])),
      on_processing_time = (\<lambda>timer s. (Inr [], s @ [(OP_DELETE_PROC_TIMER, timer)]))\<rparr>"

definition reversing_coder :: "string namespace_coder" where
  "reversing_coder = \<lparr>encode_nested = (\<lambda>w. Inr (rev w)), decode_nested = (\<lambda>b. Inr (rev b))\<rparr>"

definition example_operation ::
  "((TimerOperandType \<times> string InternalTimer) list, string) StreamGroupWindowAggregateOperation" where
  "example_operation =
     \<lparr>op_is_time_window = True, op_namespace_coder = reversing_coder,
      group_agg_function = timer_buffering_function\<rparr>"

definition normal_input :: window_input_data where
  "normal_input =
     \<lparr>w_element_type = 0, w_element = Some row_a, w_timestamp = None, w_watermark = Some 900,
      w_timer_data = None\<rparr>"

definition firing_timer_input :: "int \<Rightarrow> window_input_data" where
  "firing_timer_input kind =
     \<lparr>w_element_type = 1, w_element = None, w_timestamp = Some 999, w_watermark = None,
      w_timer_data = Some \<lparr>timer_type = kind, encoded_key = [StrValue ''A''],
                           encoded_namespace = '')0001,0[''\<rparr>\<rparr>"


section \<open>Properties of the timer service of ProcessFunctionOperation\<close>

text \<open>
  C8. For every timestamp \<open>t\<close> and every state of the timer service of the non-keyed
  ProcessFunctionOperation, \<^verbatim>\<open>register_processing_time_timer(t)\<close> and
  \<^verbatim>\<open>register_event_time_timer(t)\<close> raise the exception whose message says that
  registering timers is only supported on a keyed stream, and the service is left as it
  was: no timer is registered.
\<close>

theorem register_timers_unsupported:
  "register_processing_time_timer t svc =
     (Inl (Exception ''Register timers is only supported on a keyed stream.''), svc) \<and>
   register_event_time_timer t svc =
     (Inl (Exception ''Register timers is only supported on a keyed stream.''), svc)"
  by (simp add: register_processing_time_timer_def register_event_time_timer_def)


section \<open>Properties of the setup of the windowed operation\<close>

text \<open>
  C5. For every group window whose type is sliding or session,
  \<^verbatim>\<open>create_process_function\<close> raises the exception that names the missing feature
  (FLINK-21629 for sliding, FLINK-21630 for session windows); it returns no process
  function, so no assigner and no trigger is chosen in their place.
\<close>

theorem sliding_session_not_implemented:
  assumes "window_type w = SLIDING_GROUP_WINDOW \<or> window_type w = SESSION_GROUP_WINDOW"
  shows "create_process_function w =
           Inl (Exception (if window_type w = SLIDING_GROUP_WINDOW
              then ''General Python UDAF in Sliding window will be implemented in FLINK-21629''
              else ''General Python UDAF in Sessiong window will be implemented in FLINK-21630'')) \<and>
         (\<forall>args. create_process_function w \<noteq> Inr args)"
  using assms by (auto simp: create_process_function_def)

theorem sliding_session_not_implemented_witness:
  "create_process_function (example_window\<lparr>window_type := SLIDING_GROUP_WINDOW\<rparr>) =
     Inl (Exception ''General Python UDAF in Sliding window will be implemented in FLINK-21629'') \<and>
   create_process_function (example_window\<lparr>window_type := SESSION_GROUP_WINDOW\<rparr>) =
     Inl (Exception ''General Python UDAF in Sessiong window will be implemented in FLINK-21630'')"
  using sliding_session_not_implemented [of "example_window\<lparr>window_type := SLIDING_GROUP_WINDOW\<rparr>"]
    sliding_session_not_implemented [of "example_window\<lparr>window_type := SESSION_GROUP_WINDOW\<rparr>"]
  by (simp add: example_window_def)

text \<open>
  C9. Whatever the group window, a tumbling time-window assigner that
  \<^verbatim>\<open>create_process_function\<close> constructs has offset 0; its size is the window size and
  its time domain the \<^verbatim>\<open>is_row_time\<close> flag of the window. No field of the window reaches
  the offset.
\<close>

theorem tumbling_assigner_offset_zero:
  assumes "create_process_function w = Inr args"
    and "arg_window_assigner args = TumblingWindowAssigner sz offset row_time"
  shows "offset = 0 \<and> sz = window_size w \<and> row_time = is_row_time w"
  using assms by (auto simp: create_process_function_def Let_def split: if_splits)

theorem tumbling_assigner_offset_zero_witness:
  "create_process_function example_window =
     Inr \<lparr>arg_allowed_lateness = 0, arg_window_assigner = TumblingWindowAssigner 1000 0 True,
          arg_trigger = EventTimeTrigger, arg_time_field_index = 2\<rparr> \<and>
   (0::int) = 0 \<and> 1000 = window_size example_window \<and> True = is_row_time example_window"
proof -
  have c: "create_process_function example_window =
     Inr \<lparr>arg_allowed_lateness = 0, arg_window_assigner = TumblingWindowAssigner 1000 0 True,
          arg_trigger = EventTimeTrigger, arg_time_field_index = 2\<rparr>"
    by (simp add: create_process_function_def example_window_def)
  show ?thesis
    using c tumbling_assigner_offset_zero [OF c, of 1000 0 True] by simp
qed


subsection \<open>The named-property extractor\<close>

lemma extractor_array_named:
  "\<forall>p \<in> set props. is_named_member p \<Longrightarrow>
   \<exists>exprs. named_property_extractor_array props acc = Inr (acc @ exprs) \<and>
     length exprs = length props \<and>
     (\<forall>w. map (eval_property_expr w) exprs = map (named_property_value w) props)"
proof (induction props acc rule: named_property_extractor_array.induct)
  case (1 acc)
  then show ?case by simp
next
  case (2 ps acc)
  then obtain exprs where e:
    "named_property_extractor_array ps (acc @ [Value_start]) = Inr ((acc @ [Value_start]) @ exprs)"
    "length exprs = length ps"
    "\<forall>w. map (eval_property_expr w) exprs = map (named_property_value w) ps"
    by auto
  show ?case
    by (rule exI [of _ "Value_start # exprs"]) (simp add: e)
next
  case (3 ps acc)
  then obtain exprs where e:
    "named_property_extractor_array ps (acc @ [Value_end]) = Inr ((acc @ [Value_end]) @ exprs)"
    "length exprs = length ps"
    "\<forall>w. map (eval_property_expr w) exprs = map (named_property_value w) ps"
    by auto
  show ?case
    by (rule exI [of _ "Value_end # exprs"]) (simp add: e)
next
  case (4 ps acc)
  then obtain exprs where e:
    "named_property_extractor_array ps (acc @ [Value_end_minus_1]) =
       Inr ((acc @ [Value_end_minus_1]) @ exprs)"
    "length exprs = length ps"
    "\<forall>w. map (eval_property_expr w) exprs = map (named_property_value w) ps"
    by auto
  show ?case
    by (rule exI [of _ "Value_end_minus_1 # exprs"]) (simp add: e)
next
  case (5 ps acc)
  then obtain exprs where e:
    "named_property_extractor_array ps (acc @ [Minus_1]) = Inr ((acc @ [Minus_1]) @ exprs)"
    "length exprs = length ps"
    "\<forall>w. map (eval_property_expr w) exprs = map (named_property_value w) ps"
    by auto
  show ?case
    by (rule exI [of _ "Minus_1 # exprs"]) (simp add: e)
next
  case (6 n ps acc)
  then show ?case by simp
qed

lemma extractor_array_other:
  "\<not> (\<forall>p \<in> set props. is_named_member p) \<Longrightarrow>
   \<exists>n. OTHER_PROPERTY n \<in> set props \<and>
     named_property_extractor_array props acc = Inl (Exception (''Unexpected property '' @ str_int n))"
  by (induction props acc rule: named_property_extractor_array.induct) auto

text \<open>
  C6, as the specification states it, fails for the window that exposes no named
  property: the specification promises an extractor that returns the list of the
  configured values, here the empty list, and the source returns \<^verbatim>\<open>None\<close>, no
  extractor at all.
\<close>

theorem named_property_function_empty:
  "\<not> (\<exists>f. create_named_property_function [] = Inr (Some f) \<and>
          (\<forall>w. f w = map (named_property_value w) []))"
  by (simp add: create_named_property_function_def)

text \<open>
  C6, amended. For every non-empty sequence of named properties that are all among
  window-start, window-end, row-time attribute and processing-time attribute, the
  extractor exists and returns for every firing window \<open>w\<close>, in configuration order,
  \<open>w.start\<close>, \<open>w.end\<close>, \<open>w.end - 1\<close> and \<open>-1\<close> respectively. For the empty sequence no
  extractor is created (the result is \<^verbatim>\<open>None\<close>). A sequence that contains any other
  kind raises, at setup, the exception that names an unexpected property of the
  sequence.
\<close>

theorem named_property_function_values:
  "(props \<noteq> [] \<and> (\<forall>p \<in> set props. is_named_member p) \<longrightarrow>
      (\<exists>f. create_named_property_function props = Inr (Some f) \<and>
           (\<forall>w. f w = map (named_property_value w) props))) \<and>
   (props = [] \<longrightarrow> create_named_property_function props = Inr None) \<and>
   (\<not> (\<forall>p \<in> set props. is_named_member p) \<longrightarrow>
      (\<exists>n. OTHER_PROPERTY n \<in> set props \<and>
           create_named_property_function props =
             Inl (Exception (''Unexpected property '' @ str_int n))))"
proof (intro conjI impI)
  assume a: "props \<noteq> [] \<and> (\<forall>p \<in> set props. is_named_member p)"
  then obtain exprs where e: "named_property_extractor_array props [] = Inr ([] @ exprs)"
    "length exprs = length props"
    "\<forall>w. map (eval_property_expr w) exprs = map (named_property_value w) props"
    using extractor_array_named [of props "[]"] by blast
  from a e(2) have "exprs \<noteq> []" by auto
  with e show "\<exists>f. create_named_property_function props = Inr (Some f) \<and>
           (\<forall>w. f w = map (named_property_value w) props)"
    by (simp add: create_named_property_function_def)
next
  assume "props = []"
  then show "create_named_property_function props = Inr None"
    by (simp add: create_named_property_function_def)
next
  assume "\<not> (\<forall>p \<in> set props. is_named_member p)"
  then obtain n where "OTHER_PROPERTY n \<in> set props"
    "named_property_extractor_array props [] = Inl (Exception (''Unexpected property '' @ str_int n))"
    using extractor_array_other [of props "[]"] by blast
  then show "\<exists>n. OTHER_PROPERTY n \<in> set props \<and>
           create_named_property_function props =
             Inl (Exception (''Unexpected property '' @ str_int n))"
    by (auto simp: create_named_property_function_def)
qed

theorem named_property_function_values_witness:
  "(\<exists>f. create_named_property_function
          [WINDOW_START, WINDOW_END, ROW_TIME_ATTRIBUTE, PROC_TIME_ATTRIBUTE] = Inr (Some f) \<and>
        f \<lparr>window_start = 5000, window_end = 6000\<rparr> = [5000, 6000, 5999, - 1]) \<and>
   create_named_property_function [] = Inr None \<and>
   create_named_property_function [WINDOW_START, OTHER_PROPERTY 7, WINDOW_END] =
     Inl (Exception ''Unexpected property 7'')"
  using named_property_function_values
      [of "[WINDOW_START, WINDOW_END, ROW_TIME_ATTRIBUTE, PROC_TIME_ATTRIBUTE]"]
    named_property_function_values [of "[]"]
    named_property_function_values [of "[WINDOW_START, OTHER_PROPERTY 7, WINDOW_END]"]
  by (simp add: create_named_property_function_def str_int_def digit_char_def)


section \<open>Properties of the shared distinct views\<close>

lemma py_index_first: "xs \<noteq> [] \<Longrightarrow> py_index xs 0 = Inr (hd xs)"
  by (cases xs) (simp_all add: py_index_def)

lemma py_index_in_range: "0 \<le> i \<Longrightarrow> i < int (length xs) \<Longrightarrow> py_index xs i = Inr (xs ! nat i)"
  by (simp add: py_index_def)

lemma distinct_view_loop_result:
  assumes "well_formed_distinct_info xs gs"
  shows "distinct_view_loop xs gs d =
           Inr (d ++ map_of (map (\<lambda>g. (hd (fst g), descriptor_of xs g)) gs))"
  using assms
proof (induction gs arbitrary: d)
  case Nil
  then show ?case by simp
next
  case (Cons g gs)
  obtain il fl where g: "g = (il, fl)" by (cases g)
  from Cons.prems g have il: "il \<noteq> []" "0 \<le> hd il" "hd il < int (length xs)"
    and nin: "hd il \<notin> (\<lambda>g. hd (fst g)) ` set gs"
    and wf: "well_formed_distinct_info xs gs"
    by (auto simp: well_formed_distinct_info_def)
  have nd: "hd il \<notin> dom (map_of (map (\<lambda>g. (hd (fst g), descriptor_of xs g)) gs))"
    using nin by (auto simp: dom_map_of_conv_image_fst image_image)
  have step: "distinct_view_loop xs (g # gs) d =
      distinct_view_loop xs gs (d(hd il \<mapsto> descriptor_of xs g))"
  proof -
    have f: "py_index il 0 = Inr (hd il)"
      using il(1) by (rule py_index_first)
    have x: "py_index xs (hd il) = Inr (xs ! nat (hd il))"
      using il(2,3) by (rule py_index_in_range)
    show ?thesis
      by (simp add: g f x descriptor_of_def)
  qed
  have eq: "d(hd il \<mapsto> descriptor_of xs g) ++ map_of (map (\<lambda>g. (hd (fst g), descriptor_of xs g)) gs) =
        d ++ map_of (map (\<lambda>g. (hd (fst g), descriptor_of xs g)) (g # gs))"
    using nd by (simp add: g map_add_upd_left)
  have "distinct_view_loop xs (g # gs) d =
      distinct_view_loop xs gs (d(hd il \<mapsto> descriptor_of xs g))"
    by (rule step)
  also have "\<dots> = Inr (d(hd il \<mapsto> descriptor_of xs g) ++
      map_of (map (\<lambda>g. (hd (fst g), descriptor_of xs g)) gs))"
    by (rule Cons.IH [OF wf])
  also have "\<dots> = Inr (d ++ map_of (map (\<lambda>g. (hd (fst g), descriptor_of xs g)) (g # gs)))"
    by (simp only: eq)
  finally show ?case .
qed

text \<open>
  C7. When the aggregate operation builds the shared distinct-view descriptors from the
  groups that \<^verbatim>\<open>extract_user_defined_aggregate_function\<close> collected, it creates one
  descriptor for each group, so that the dictionary has as many entries as there are
  groups. The descriptor of a group is stored under the aggregate index of the first
  function of the group and holds the input extractor of that function. Its list of
  filter arguments is empty when some function of the group has the filter argument
  \<open>-1\<close>, and the list of the group otherwise.
\<close>

theorem distinct_view_descriptors_per_group:
  assumes "well_formed_distinct_info input_extractors distinct_info_values"
  shows "\<exists>d. generate_distinct_view_descriptors input_extractors distinct_info_values = Inr d \<and>
           card (dom d) = length distinct_info_values \<and>
           (\<forall>(agg_index_list, filter_arg_list) \<in> set distinct_info_values.
              d (hd agg_index_list) =
                Some \<lparr>dv_input_extractor = input_extractors ! nat (hd agg_index_list),
                      dv_filter_args = (if - 1 \<in> set filter_arg_list then [] else filter_arg_list)\<rparr>)"
proof -
  let ?kv = "map (\<lambda>g. (hd (fst g), descriptor_of input_extractors g)) distinct_info_values"
  have dist: "distinct (map fst ?kv)"
    using assms by (simp add: well_formed_distinct_info_def comp_def)
  have r: "generate_distinct_view_descriptors input_extractors distinct_info_values = Inr (map_of ?kv)"
    using distinct_view_loop_result [OF assms, of Map.empty]
    by (simp add: generate_distinct_view_descriptors_def)
  have "dom (map_of ?kv) = set (map fst ?kv)"
    by (simp only: dom_map_of_conv_image_fst set_map)
  then have c: "card (dom (map_of ?kv)) = length distinct_info_values"
    using distinct_card [OF dist] by simp
  have v: "\<forall>g \<in> set distinct_info_values.
      map_of ?kv (hd (fst g)) = Some (descriptor_of input_extractors g)"
  proof
    fix g assume "g \<in> set distinct_info_values"
    then have "(hd (fst g), descriptor_of input_extractors g) \<in> set ?kv" by auto
    with dist show "map_of ?kv (hd (fst g)) = Some (descriptor_of input_extractors g)"
      by (rule map_of_is_SomeI)
  qed
  show ?thesis
    using r c v by (auto simp: descriptor_of_def)
qed

theorem distinct_view_descriptors_per_group_witness:
  "well_formed_distinct_info [''value[0]'', ''value[1]'', ''value[2]'', ''value[1]'']
      [([1, 3], [4, - 1]), ([2], [5])] \<and>
   (\<exists>d. generate_distinct_view_descriptors [''value[0]'', ''value[1]'', ''value[2]'', ''value[1]'']
          [([1, 3], [4, - 1]), ([2], [5])] = Inr d \<and>
        card (dom d) = 2 \<and>
        d 1 = Some \<lparr>dv_input_extractor = ''value[1]'', dv_filter_args = []\<rparr> \<and>
        d 2 = Some \<lparr>dv_input_extractor = ''value[2]'', dv_filter_args = [5]\<rparr>)"
proof -
  have w: "well_formed_distinct_info [''value[0]'', ''value[1]'', ''value[2]'', ''value[1]'']
      [([1, 3], [4, - 1]), ([2], [5])]"
    by (simp add: well_formed_distinct_info_def)
  show ?thesis
    using w distinct_view_descriptors_per_group [OF w] by auto
qed


section \<open>Properties of the non-windowed aggregate operation\<close>

text \<open>The log of a recorded run of the loop is the list of the events of the loop.\<close>

lemma recording_loop:
  "process_input_datas (recording f) input_datas (s, log) =
     (fst (process_input_datas f input_datas s),
      (snd (process_input_datas f input_datas s), log @ dispatch_events f input_datas s))"
proof (induction input_datas arbitrary: s log)
  case Nil
  then show ?case by simp
next
  case (Cons i rest)
  show ?case
  proof (cases "element_type i = NORMAL_RECORD")
    case True
    obtain r s' where c: "process_element f (element i) s = (r, s')"
      by (cases "process_element f (element i) s")
    show ?thesis
      using True c Cons.IH [of s' "log @ [Process_element (element i) r]"]
      by (cases r) (simp_all add: recording_def dispatch_event_def)
  next
    case False
    obtain r s' where c: "on_timer f (key i) s = (r, s')"
      by (cases "on_timer f (key i) s")
    show ?thesis
      using False c Cons.IH [of s' "log @ [On_timer (key i) r]"]
      by (cases r) (simp_all add: recording_def dispatch_event_def)
  qed
qed

lemma dispatch_events_returned:
  "process_input_datas f input_datas s = (Inr u, s') \<Longrightarrow>
   dispatch_events f input_datas s = map (\<lambda>i. dispatch_event i (Inr ())) input_datas"
proof (induction input_datas arbitrary: s)
  case Nil
  then show ?case by simp
next
  case (Cons i rest)
  then show ?case
    by (auto split: if_splits prod.splits sum.splits)
qed

lemma dispatch_events_raised:
  "process_input_datas f input_datas s = (Inl e, s') \<Longrightarrow>
   \<exists>n < length input_datas.
     dispatch_events f input_datas s =
       map (\<lambda>i. dispatch_event i (Inr ())) (take n input_datas) @
       [dispatch_event (input_datas ! n) (Inl e)]"
proof (induction input_datas arbitrary: s)
  case Nil
  then show ?case by simp
next
  case (Cons i rest)
  obtain r s1 where c: "(if element_type i = NORMAL_RECORD
            then process_element f (element i) s
            else on_timer f (key i) s) = (r, s1)"
    by (cases "if element_type i = NORMAL_RECORD
            then process_element f (element i) s
            else on_timer f (key i) s")
  show ?case
  proof (cases r)
    case (Inl e')
    with c Cons.prems have "e' = e" by simp
    with c Inl have "dispatch_events f (i # rest) s = [dispatch_event i (Inl e)]" by simp
    then show ?thesis by (intro exI [of _ 0]) simp
  next
    case (Inr u)
    with c Cons.prems have "process_input_datas f rest s1 = (Inl e, s')" by simp
    from Cons.IH [OF this] obtain n where n: "n < length rest"
      "dispatch_events f rest s1 =
       map (\<lambda>i. dispatch_event i (Inr ())) (take n rest) @ [dispatch_event (rest ! n) (Inl e)]"
      by blast
    from c Inr have "dispatch_events f (i # rest) s = dispatch_event i (Inr ()) # dispatch_events f rest s1"
      by simp
    with n show ?thesis by (intro exI [of _ "Suc n"]) simp
  qed
qed

text \<open>
  C3. For every batch of inputs, every aggregate function and every state, the
  operation dispatches the inputs in arrival order, an input tagged
  \<^verbatim>\<open>NORMAL_RECORD\<close> to \<^verbatim>\<open>process_element\<close> with its element and an input with any
  other tag to \<^verbatim>\<open>on_timer\<close> with its key; it then calls \<^verbatim>\<open>finish_bundle\<close> once, after
  all inputs, and returns what that call returns as the output of the batch. These are
  all the calls it makes. An exception that a call raises ends the batch at that call
  and is the outcome of the batch. Recording the calls changes neither the outcome nor
  the state.
\<close>

theorem dispatch_in_order_then_finish_bundle:
  assumes "process_element_or_timer (recording f) input_datas (s, []) = (result, (s', log))"
  shows "process_element_or_timer f input_datas s = (result, s') \<and>
         (\<forall>out. result = Inr out \<longrightarrow>
            log = map (\<lambda>i. dispatch_event i (Inr ())) input_datas @ [Finish_bundle (Inr out)]) \<and>
         (\<forall>e. result = Inl e \<longrightarrow>
            log = map (\<lambda>i. dispatch_event i (Inr ())) input_datas @ [Finish_bundle (Inl e)] \<or>
            (\<exists>n < length input_datas.
               log = map (\<lambda>i. dispatch_event i (Inr ())) (take n input_datas) @
                     [dispatch_event (input_datas ! n) (Inl e)]))"
proof -
  obtain r1 s1 where l: "process_input_datas f input_datas s = (r1, s1)"
    by (cases "process_input_datas f input_datas s")
  have rl: "process_input_datas (recording f) input_datas (s, []) =
      (r1, (s1, dispatch_events f input_datas s))"
    using recording_loop [of f input_datas s "[]"] l by simp
  show ?thesis
  proof (cases r1)
    case (Inl e)
    from l Inl have ev: "\<exists>n < length input_datas.
        dispatch_events f input_datas s =
          map (\<lambda>i. dispatch_event i (Inr ())) (take n input_datas) @
          [dispatch_event (input_datas ! n) (Inl e)]"
      by (intro dispatch_events_raised) simp
    from assms rl Inl have "result = Inl e" "s' = s1" "log = dispatch_events f input_datas s"
      by (simp_all add: process_element_or_timer_def)
    with l Inl ev show ?thesis
      by (simp add: process_element_or_timer_def)
  next
    case (Inr u)
    from l Inr have ev: "dispatch_events f input_datas s =
        map (\<lambda>i. dispatch_event i (Inr ())) input_datas"
      by (intro dispatch_events_returned) simp
    obtain r2 s2 where fb: "finish_bundle f s1 = (r2, s2)"
      by (cases "finish_bundle f s1")
    have rfb: "finish_bundle (recording f) (s1, dispatch_events f input_datas s) =
        (r2, (s2, dispatch_events f input_datas s @ [Finish_bundle r2]))"
      using fb by (simp add: recording_def)
    from assms rl Inr rfb have "result = r2" "s' = s2"
      "log = dispatch_events f input_datas s @ [Finish_bundle r2]"
      by (auto simp: process_element_or_timer_def)
    with l Inr ev fb show ?thesis
      by (auto simp: process_element_or_timer_def)
  qed
qed

theorem dispatch_in_order_then_finish_bundle_witness:
  "process_element_or_timer (recording buffering_function) example_input_datas ([], []) =
     (Inr [row_b],
      ([], [Process_element (Some row_a) (Inr ()), On_timer (Some key_a) (Inr ()),
            Process_element (Some row_b) (Inr ()), Finish_bundle (Inr [row_b])])) \<and>
   process_element_or_timer buffering_function example_input_datas [] = (Inr [row_b], []) \<and>
   process_element_or_timer (recording buffering_function)
       (example_input_datas @ [\<lparr>element_type = 0, element = None, timestamp = None, key = None\<rparr>,
                               \<lparr>element_type = 0, element = Some row_a, timestamp = None, key = None\<rparr>])
       ([], []) =
     (Inl (TypeError ''element is None''),
      ([row_b], [Process_element (Some row_a) (Inr ()), On_timer (Some key_a) (Inr ()),
            Process_element (Some row_b) (Inr ()),
            Process_element None (Inl (TypeError ''element is None''))]))"
  using dispatch_in_order_then_finish_bundle
      [of buffering_function example_input_datas "[]" "Inr [row_b]" "[]"
          "[Process_element (Some row_a) (Inr ()), On_timer (Some key_a) (Inr ()),
            Process_element (Some row_b) (Inr ()), Finish_bundle (Inr [row_b])]"]
    dispatch_in_order_then_finish_bundle
      [of buffering_function
          "example_input_datas @ [\<lparr>element_type = 0, element = None, timestamp = None, key = None\<rparr>,
                               \<lparr>element_type = 0, element = Some row_a, timestamp = None, key = None\<rparr>]"
          "[]" "Inl (TypeError ''element is None'')" "[row_b]"
          "[Process_element (Some row_a) (Inr ()), On_timer (Some key_a) (Inr ()),
            Process_element (Some row_b) (Inr ()),
            Process_element None (Inl (TypeError ''element is None''))]"]
  by (simp add: process_element_or_timer_def recording_def buffering_function_def
      example_input_datas_def NORMAL_RECORD_def)


section \<open>Properties of the windowed aggregate operation\<close>

text \<open>
  A recorded call is the call of the wrapped function with one event more in the log;
  the two shapes a recorded run can have follow by unfolding the operation.
\<close>

lemma timer_entries_shape:
  "timer_entries coder timers = Inr entries \<Longrightarrow>
   list_all2 (\<lambda>(operand, timer) entry.
       \<exists>encoded. encode_nested coder (get_namespace timer) = Inr encoded \<and>
                 entry = timer_entry operand timer encoded) timers entries"
proof (induction coder timers arbitrary: entries rule: timer_entries.induct)
  case (1 coder)
  then show ?case by simp
next
  case (2 coder timer_operand_type internal_timer timers)
  then show ?case
    by (auto split: sum.splits)
qed

lemma recorded_calls [simp]:
  "process_watermark (recording_window f) wm (s, log) =
     (fst (process_watermark f wm s),
      (snd (process_watermark f wm s), log @ [Process_watermark wm (fst (process_watermark f wm s))]))"
  "window_process_element (recording_window f) row (s, log) =
     (fst (window_process_element f row s),
      (snd (window_process_element f row s),
       log @ [Window_process_element row (fst (window_process_element f row s))]))"
  "get_timers (recording_window f) (s, log) =
     (fst (get_timers f s), (snd (get_timers f s), log @ [Get_timers (fst (get_timers f s))]))"
  "on_event_time (recording_window f) timer (s, log) =
     (fst (on_event_time f timer s),
      (snd (on_event_time f timer s), log @ [On_event_time timer (fst (on_event_time f timer s))]))"
  "on_processing_time (recording_window f) timer (s, log) =
     (fst (on_processing_time f timer s),
      (snd (on_processing_time f timer s),
       log @ [On_processing_time timer (fst (on_processing_time f timer s))]))"
  by (simp_all add: recording_window_def split: prod.splits)

lemma recording_operation_fields [simp]:
  "op_namespace_coder (recording_operation self) = op_namespace_coder self"
  "group_agg_function (recording_operation self) = recording_window (group_agg_function self)"
  "op_is_time_window (recording_operation self) = op_is_time_window self"
  by (simp_all add: recording_operation_def)


lemma normal_run:
  assumes "w_element_type input_data = NORMAL_RECORD"
    and "window_process_element_or_timer has_cython (recording_operation self) input_data (s, log0)
           = (Inr out, (s', log))"
  shows "\<exists>input_row result_datas timers timer_datas.
           to_input_row has_cython (w_element input_data) = Inr input_row \<and>
           log = log0 @ [Process_watermark (w_watermark input_data) (Inr ()),
                  Window_process_element input_row (Inr result_datas),
                  Get_timers (Inr timers)] \<and>
           timer_entries (op_namespace_coder self) timers = Inr timer_datas \<and>
           out = map normal_record_entry result_datas @ timer_datas"
  using assms
  by (auto simp: window_process_element_or_timer_def split: prod.splits sum.splits)

lemma timer_run:
  assumes "w_element_type input_data \<noteq> NORMAL_RECORD"
    and "window_process_element_or_timer has_cython (recording_operation self) input_data (s, log0)
           = (result, (s', log))"
  shows "(w_timer_data input_data = None \<and> log = log0 \<and>
            result = Inl (TypeError ''NoneType object is not subscriptable'')) \<or>
         (\<exists>td e. w_timer_data input_data = Some td \<and> log = log0 \<and> result = Inl e \<and>
            decode_nested (op_namespace_coder self) (encoded_namespace td) = Inl e) \<or>
         (\<exists>td namespace r. w_timer_data input_data = Some td \<and>
            decode_nested (op_namespace_coder self) (encoded_namespace td) = Inr namespace \<and>
            result = map_sum (\<lambda>e. e) (map normal_record_entry) r \<and>
            log = log0 @
              [(if timer_type td = REGISTER_EVENT_TIMER then On_event_time else On_processing_time)
                 \<lparr>get_timestamp = w_timestamp input_data, get_key = encoded_key td,
                  get_namespace = namespace\<rparr> r])"
  using assms
  by (auto simp: window_process_element_or_timer_def Let_def
      split: prod.splits sum.splits option.splits if_splits)

text \<open>Recording changes neither the outcome of a run nor the state it leaves.\<close>

lemma recording_operation_run:
  "fst (window_process_element_or_timer has_cython (recording_operation self) input_data (s, log0))
     = fst (window_process_element_or_timer has_cython self input_data s) \<and>
   fst (snd (window_process_element_or_timer has_cython (recording_operation self) input_data
              (s, log0)))
     = snd (window_process_element_or_timer has_cython self input_data s)"
  by (auto simp: window_process_element_or_timer_def Let_def
      split: prod.splits sum.splits option.splits)

lemma time_window_flag_unused:
  "window_process_element_or_timer has_cython (self\<lparr>op_is_time_window := b\<rparr>) input_data s =
   window_process_element_or_timer has_cython self input_data s"
  by (simp add: window_process_element_or_timer_def
      cong: option.case_cong sum.case_cong prod.case_cong if_cong)

lemma recording_operation_flag:
  "recording_operation (self\<lparr>op_is_time_window := b\<rparr>) =
   (recording_operation self)\<lparr>op_is_time_window := b\<rparr>"
  by (simp add: recording_operation_def)

lemmas example_run_defs =
  window_process_element_or_timer_def example_operation_def normal_input_def
  firing_timer_input_def timer_buffering_function_def reversing_coder_def fired_timer_def
  NORMAL_RECORD_def TRIGGER_TIMER_def REGISTER_EVENT_TIMER_def Let_def to_input_row_def
  normal_record_entry_def timer_entry_def optional_int_out_def row_a_def

text \<open>
  C10. For every input tagged \<^verbatim>\<open>NORMAL_RECORD\<close>, the first call of the operation is
  \<^verbatim>\<open>process_watermark\<close> with the fourth field of the input; \<^verbatim>\<open>process_element\<close> is
  called only after it has returned, as the next call. If \<^verbatim>\<open>process_watermark\<close> raises,
  the exception is the outcome and nothing else is called. The operation does not read
  its time-window flag: the run is the same for a count window and for a time window.
\<close>

theorem watermark_before_element:
  assumes "w_element_type input_data = NORMAL_RECORD"
    and "window_process_element_or_timer has_cython (recording_operation self) input_data (s, [])
           = (result, (s', log))"
  shows "(\<exists>r rest. log = Process_watermark (w_watermark input_data) r # rest \<and>
            (\<forall>e. r = Inl e \<longrightarrow> rest = [] \<and> result = Inl e) \<and>
            (\<forall>input_row. r = Inr () \<and>
                 to_input_row has_cython (w_element input_data) = Inr input_row \<longrightarrow>
               (\<exists>r'. rest \<noteq> [] \<and> hd rest = Window_process_element input_row r'))) \<and>
         (\<forall>b. window_process_element_or_timer has_cython
                 (recording_operation (self\<lparr>op_is_time_window := b\<rparr>)) input_data (s, [])
               = (result, (s', log)))"
proof
  show "\<exists>r rest. log = Process_watermark (w_watermark input_data) r # rest \<and>
            (\<forall>e. r = Inl e \<longrightarrow> rest = [] \<and> result = Inl e) \<and>
            (\<forall>input_row. r = Inr () \<and>
                 to_input_row has_cython (w_element input_data) = Inr input_row \<longrightarrow>
               (\<exists>r'. rest \<noteq> [] \<and> hd rest = Window_process_element input_row r'))"
    using assms
    by (auto simp: window_process_element_or_timer_def split: prod.splits sum.splits)
next
  show "\<forall>b. window_process_element_or_timer has_cython
                 (recording_operation (self\<lparr>op_is_time_window := b\<rparr>)) input_data (s, [])
               = (result, (s', log))"
    using assms(2)
    by (simp only: recording_operation_flag time_window_flag_unused) simp
qed

theorem watermark_before_element_witness:
  "w_element_type normal_input = NORMAL_RECORD \<and>
   window_process_element_or_timer False
       (recording_operation (example_operation\<lparr>op_is_time_window := False\<rparr>)) normal_input
       ([], []) =
     (Inr [List_out [Int_out 0, Row_out row_a, None_out],
           List_out [Int_out 1, None_out,
             List_out [Operand_value OP_REGISTER_EVENT_TIMER, Key_out [StrValue ''A''], Int_out 999,
                       Bytes_out '')0001,0['']]],
      ([], [Process_watermark (Some 900) (Inr ()),
            Window_process_element (Some (PlainRow row_a)) (Inr [row_a]),
            Get_timers (Inr [(OP_REGISTER_EVENT_TIMER, fired_timer)])])) \<and>
   to_input_row False (w_element normal_input) = Inr (Some (PlainRow row_a))"
  using watermark_before_element
      [of normal_input False "example_operation\<lparr>op_is_time_window := False\<rparr>" "[]"
          "Inr [List_out [Int_out 0, Row_out row_a, None_out],
           List_out [Int_out 1, None_out,
             List_out [Operand_value OP_REGISTER_EVENT_TIMER, Key_out [StrValue ''A''], Int_out 999,
                       Bytes_out '')0001,0['']]]"
          "[]"
          "[Process_watermark (Some 900) (Inr ()),
            Window_process_element (Some (PlainRow row_a)) (Inr [row_a]),
            Get_timers (Inr [(OP_REGISTER_EVENT_TIMER, fired_timer)])]"]
  by (simp add: example_run_defs)

text \<open>
  C4. Every entry of an output that the operation returns is either
  \<^verbatim>\<open>[NORMAL_RECORD, change_record, None]\<close> for a change record that \<^verbatim>\<open>process_element\<close>,
  \<^verbatim>\<open>on_event_time\<close> or \<^verbatim>\<open>on_processing_time\<close> returned during the call, or
  \<^verbatim>\<open>[TRIGGER_TIMER, None, [timer kind, key, timestamp, encoded namespace]]\<close>, with the
  fields in this order, for a timer request that \<^verbatim>\<open>get_timers\<close> returned during the call,
  where the encoded namespace is \<^verbatim>\<open>encode_nested\<close> of the window of the timer.
\<close>

theorem output_entry_format:
  fixes self :: "('s, 'w) StreamGroupWindowAggregateOperation"
  assumes "window_process_element_or_timer has_cython (recording_operation self) input_data (s, [])
             = (Inr out, (s', log))"
    and "entry \<in> set out"
  shows "(\<exists>change_record \<in> set (concat (map returned_rows log)).
            entry = List_out [Int_out NORMAL_RECORD, Row_out change_record, None_out]) \<or>
         (\<exists>(operand, timer) \<in> set (concat (map returned_timers log)).
            \<exists>encoded.
              encode_nested (op_namespace_coder self) (get_namespace timer) = Inr encoded \<and>
              entry = List_out [Int_out TRIGGER_TIMER, None_out,
                        List_out [Operand_value operand, Key_out (get_key timer),
                                  optional_int_out (get_timestamp timer), Bytes_out encoded]])"
proof (cases "w_element_type input_data = NORMAL_RECORD")
  case True
  from normal_run [OF True assms(1)] obtain input_row result_datas timers timer_datas where
    log: "log = [] @ [Process_watermark (w_watermark input_data) (Inr ()),
                  Window_process_element input_row (Inr result_datas),
                  Get_timers (Inr timers)]"
    and te: "timer_entries (op_namespace_coder self) timers = Inr timer_datas"
    and out: "out = map normal_record_entry result_datas @ timer_datas"
    by blast
  from assms(2) out consider "entry \<in> set (map normal_record_entry result_datas)"
    | "entry \<in> set timer_datas" by auto
  then show ?thesis
  proof cases
    case 1
    then show ?thesis by (auto simp: normal_record_entry_def log)
  next
    case 2
    then obtain n where n: "n < length timer_datas" "entry = timer_datas ! n"
      by (auto simp: in_set_conv_nth)
    from timer_entries_shape [OF te] have len: "length timers = length timer_datas"
      by (rule list_all2_lengthD)
    from timer_entries_shape [OF te] n
    have "(\<lambda>(operand, timer) entry.
       \<exists>encoded. encode_nested (op_namespace_coder self) (get_namespace timer) = Inr encoded \<and>
                 entry = timer_entry operand timer encoded) (timers ! n) entry"
      by (simp add: list_all2_conv_all_nth)
    then obtain operand timer encoded where
      "timers ! n = (operand, timer)"
      "encode_nested (op_namespace_coder self) (get_namespace timer) = Inr encoded"
      "entry = timer_entry operand timer encoded"
      by (cases "timers ! n") auto
    moreover from n len have "timers ! n \<in> set timers" by simp
    ultimately show ?thesis
      by (auto simp: timer_entry_def log)
  qed
next
  case False
  from timer_run [OF False assms(1)] obtain r timer where
    r: "Inr out = map_sum (\<lambda>e. e) (map normal_record_entry) r"
    and "log = [] @ [On_event_time timer r] \<or> log = [] @ [On_processing_time timer r]"
    by (auto split: if_splits)
  then show ?thesis
    using assms(2) by (cases r) (auto simp: normal_record_entry_def)
qed

theorem output_entry_format_witness:
  "window_process_element_or_timer True (recording_operation example_operation) normal_input
       ([], []) =
     (Inr [List_out [Int_out 0, Row_out row_a, None_out],
           List_out [Int_out 1, None_out,
             List_out [Operand_value OP_REGISTER_EVENT_TIMER, Key_out [StrValue ''A''], Int_out 999,
                       Bytes_out '')0001,0['']]],
      ([], [Process_watermark (Some 900) (Inr ()),
            Window_process_element (Some (InternalRow [StrValue ''A'', IntValue 5] 0)) (Inr [row_a]),
            Get_timers (Inr [(OP_REGISTER_EVENT_TIMER, fired_timer)])])) \<and>
   encode_nested (op_namespace_coder example_operation) (get_namespace fired_timer) =
     Inr '')0001,0[''"
  using output_entry_format
      [of True example_operation normal_input "[]"
          "[List_out [Int_out 0, Row_out row_a, None_out],
           List_out [Int_out 1, None_out,
             List_out [Operand_value OP_REGISTER_EVENT_TIMER, Key_out [StrValue ''A''], Int_out 999,
                       Bytes_out '')0001,0['']]]"
          "[]"
          "[Process_watermark (Some 900) (Inr ()),
            Window_process_element (Some (InternalRow [StrValue ''A'', IntValue 5] 0)) (Inr [row_a]),
            Get_timers (Inr [(OP_REGISTER_EVENT_TIMER, fired_timer)])]"
          "List_out [Int_out 1, None_out,
             List_out [Operand_value OP_REGISTER_EVENT_TIMER, Key_out [StrValue ''A''], Int_out 999,
                       Bytes_out '')0001,0['']]"]
  by (simp add: example_run_defs)

text \<open>
  C1, as the specification states it, fails for a firing timer. The aggregate function
  below accumulates a request to delete the timer while \<^verbatim>\<open>on_event_time\<close> runs; the
  operation returns an output without any entry, its only call is \<^verbatim>\<open>on_event_time\<close>,
  and the request is still with the function afterwards.
\<close>

theorem timers_not_drained_after_on_timer:
  "window_process_element_or_timer False (recording_operation example_operation)
       (firing_timer_input 0) ([], []) =
     (Inr [], ([(OP_DELETE_EVENT_TIMER, fired_timer)], [On_event_time fired_timer (Inr [])]))"
  by (simp add: window_process_element_or_timer_def example_operation_def
      firing_timer_input_def timer_buffering_function_def reversing_coder_def fired_timer_def
      NORMAL_RECORD_def REGISTER_EVENT_TIMER_def Let_def)

text \<open>
  C1, amended. For an input tagged \<^verbatim>\<open>NORMAL_RECORD\<close> whose processing returns, the
  operation calls \<^verbatim>\<open>get_timers\<close> once, after \<^verbatim>\<open>process_element\<close>, and forwards each
  request it hands out, in order and after the change records, as an entry tagged
  \<^verbatim>\<open>TRIGGER_TIMER\<close> that carries the operand kind and the encoded window namespace. For
  an input with any other tag (a firing timer, event time or processing time) the
  operation does not call \<^verbatim>\<open>get_timers\<close> and returns no entry tagged \<^verbatim>\<open>TRIGGER_TIMER\<close>.
\<close>

theorem timers_forwarded_after_process_element:
  assumes "window_process_element_or_timer has_cython (recording_operation self) input_data (s, [])
             = (result, (s', log))"
  shows "(w_element_type input_data = NORMAL_RECORD \<longrightarrow>
            (\<forall>out. result = Inr out \<longrightarrow>
               (\<exists>input_row result_datas timers timer_datas.
                  log = [Process_watermark (w_watermark input_data) (Inr ()),
                         Window_process_element input_row (Inr result_datas),
                         Get_timers (Inr timers)] \<and>
                  list_all2 (\<lambda>(operand, timer) entry.
                      \<exists>encoded. encode_nested (op_namespace_coder self) (get_namespace timer)
                                   = Inr encoded \<and>
                                entry = timer_entry operand timer encoded) timers timer_datas \<and>
                  out = map normal_record_entry result_datas @ timer_datas))) \<and>
         (w_element_type input_data \<noteq> NORMAL_RECORD \<longrightarrow>
            (\<forall>ev \<in> set log. \<not> is_get_timers ev) \<and>
            (\<forall>out. result = Inr out \<longrightarrow> (\<forall>entry \<in> set out. \<not> is_trigger_timer_entry entry)))"
proof (intro conjI impI allI)
  fix out
  assume n: "w_element_type input_data = NORMAL_RECORD" and r: "result = Inr out"
  from normal_run [OF n assms [unfolded r]] obtain input_row result_datas timers timer_datas
    where "log = [] @ [Process_watermark (w_watermark input_data) (Inr ()),
                  Window_process_element input_row (Inr result_datas),
                  Get_timers (Inr timers)]"
      "timer_entries (op_namespace_coder self) timers = Inr timer_datas"
      "out = map normal_record_entry result_datas @ timer_datas"
    by blast
  then show "\<exists>input_row result_datas timers timer_datas.
                  log = [Process_watermark (w_watermark input_data) (Inr ()),
                         Window_process_element input_row (Inr result_datas),
                         Get_timers (Inr timers)] \<and>
                  list_all2 (\<lambda>(operand, timer) entry.
                      \<exists>encoded. encode_nested (op_namespace_coder self) (get_namespace timer)
                                   = Inr encoded \<and>
                                entry = timer_entry operand timer encoded) timers timer_datas \<and>
                  out = map normal_record_entry result_datas @ timer_datas"
    using timer_entries_shape [of "op_namespace_coder self" timers timer_datas] by auto
next
  assume t: "w_element_type input_data \<noteq> NORMAL_RECORD"
  from timer_run [OF t assms] show "\<forall>ev \<in> set log. \<not> is_get_timers ev"
    by (auto split: if_splits)
next
  fix out
  assume t: "w_element_type input_data \<noteq> NORMAL_RECORD" and r: "result = Inr out"
  from timer_run [OF t assms] r obtain r' :: "error + Row list"
    where "Inr out = map_sum (\<lambda>e. e) (map normal_record_entry) r'"
    by auto
  then obtain rows where "out = map normal_record_entry rows"
    by (cases r') auto
  then show "\<forall>entry \<in> set out. \<not> is_trigger_timer_entry entry"
    by (auto simp: normal_record_entry_def NORMAL_RECORD_def TRIGGER_TIMER_def)
qed

theorem timers_forwarded_after_process_element_witness:
  "window_process_element_or_timer False (recording_operation example_operation) normal_input
       ([(OP_DELETE_EVENT_TIMER, fired_timer)], []) =
     (Inr [List_out [Int_out 0, Row_out row_a, None_out],
           List_out [Int_out 1, None_out,
             List_out [Operand_value OP_DELETE_EVENT_TIMER, Key_out [StrValue ''A''], Int_out 999,
                       Bytes_out '')0001,0['']],
           List_out [Int_out 1, None_out,
             List_out [Operand_value OP_REGISTER_EVENT_TIMER, Key_out [StrValue ''A''], Int_out 999,
                       Bytes_out '')0001,0['']]],
      ([], [Process_watermark (Some 900) (Inr ()),
            Window_process_element (Some (PlainRow row_a)) (Inr [row_a]),
            Get_timers (Inr [(OP_DELETE_EVENT_TIMER, fired_timer),
                             (OP_REGISTER_EVENT_TIMER, fired_timer)])])) \<and>
   window_process_element_or_timer False (recording_operation example_operation)
       (firing_timer_input 1) ([], []) =
     (Inr [], ([(OP_DELETE_PROC_TIMER, fired_timer)], [On_processing_time fired_timer (Inr [])]))"
  using timers_forwarded_after_process_element
      [of False example_operation normal_input "[(OP_DELETE_EVENT_TIMER, fired_timer)]"
          "Inr [List_out [Int_out 0, Row_out row_a, None_out],
           List_out [Int_out 1, None_out,
             List_out [Operand_value OP_DELETE_EVENT_TIMER, Key_out [StrValue ''A''], Int_out 999,
                       Bytes_out '')0001,0['']],
           List_out [Int_out 1, None_out,
             List_out [Operand_value OP_REGISTER_EVENT_TIMER, Key_out [StrValue ''A''], Int_out 999,
                       Bytes_out '')0001,0['']]]"
          "[]"
          "[Process_watermark (Some 900) (Inr ()),
            Window_process_element (Some (PlainRow row_a)) (Inr [row_a]),
            Get_timers (Inr [(OP_DELETE_EVENT_TIMER, fired_timer),
                             (OP_REGISTER_EVENT_TIMER, fired_timer)])]"]
    timers_forwarded_after_process_element
      [of False example_operation "firing_timer_input 1" "[]" "Inr []"
          "[(OP_DELETE_PROC_TIMER, fired_timer)]" "[On_processing_time fired_timer (Inr [])]"]
  by (simp add: example_run_defs)

text \<open>
  C2, as the specification states it, fails for the timer kind 2, which is neither
  register-event nor register-processing: the operation dispatches the timer to
  \<^verbatim>\<open>on_processing_time\<close> and returns its output; no exception is raised.
\<close>

theorem unknown_timer_kind_dispatched:
  "window_process_element_or_timer False (recording_operation example_operation)
       (firing_timer_input 2) ([], []) =
     (Inr [], ([(OP_DELETE_PROC_TIMER, fired_timer)], [On_processing_time fired_timer (Inr [])]))"
  by (simp add: window_process_element_or_timer_def example_operation_def
      firing_timer_input_def timer_buffering_function_def reversing_coder_def fired_timer_def
      NORMAL_RECORD_def REGISTER_EVENT_TIMER_def Let_def)

text \<open>
  C2, amended. For a firing timer whose timer data is present and whose namespace
  decodes, the operation makes one call: \<^verbatim>\<open>on_event_time\<close> when the timer kind is
  register-event (0), and \<^verbatim>\<open>on_processing_time\<close> for every other timer kind, whether
  register-processing (1) or any other number. The outcome is the outcome of that call,
  with the change records wrapped: the operation raises nothing of its own for the
  timer kind.
\<close>

theorem timer_dispatch_by_kind:
  assumes "w_element_type input_data \<noteq> NORMAL_RECORD"
    and "w_timer_data input_data = Some td"
    and "decode_nested (op_namespace_coder self) (encoded_namespace td) = Inr namespace"
    and "window_process_element_or_timer has_cython (recording_operation self) input_data (s, [])
           = (result, (s', log))"
  shows "\<exists>r. result = map_sum (\<lambda>e. e) (map normal_record_entry) r \<and>
           (timer_type td = REGISTER_EVENT_TIMER \<longrightarrow>
              log = [On_event_time \<lparr>get_timestamp = w_timestamp input_data,
                                    get_key = encoded_key td, get_namespace = namespace\<rparr> r]) \<and>
           (timer_type td \<noteq> REGISTER_EVENT_TIMER \<longrightarrow>
              log = [On_processing_time \<lparr>get_timestamp = w_timestamp input_data,
                                         get_key = encoded_key td, get_namespace = namespace\<rparr> r])"
  using timer_run [OF assms(1) assms(4)] assms(2,3) by auto

theorem timer_dispatch_by_kind_witness:
  "w_element_type (firing_timer_input 0) \<noteq> NORMAL_RECORD \<and>
   window_process_element_or_timer False (recording_operation example_operation)
       (firing_timer_input 0) ([(OP_REGISTER_EVENT_TIMER, fired_timer)], []) =
     (Inr [], ([(OP_REGISTER_EVENT_TIMER, fired_timer), (OP_DELETE_EVENT_TIMER, fired_timer)],
               [On_event_time fired_timer (Inr [])])) \<and>
   window_process_element_or_timer False (recording_operation example_operation)
       (firing_timer_input 7) ([(OP_REGISTER_EVENT_TIMER, fired_timer)], []) =
     (Inr [], ([(OP_REGISTER_EVENT_TIMER, fired_timer), (OP_DELETE_PROC_TIMER, fired_timer)],
               [On_processing_time fired_timer (Inr [])]))"
  using timer_dispatch_by_kind
      [of "firing_timer_input 0"
          "\<lparr>timer_type = 0, encoded_key = [StrValue ''A''], encoded_namespace = '')0001,0[''\<rparr>"
          example_operation "''[0,1000)''" False "[(OP_REGISTER_EVENT_TIMER, fired_timer)]"
          "Inr []" "[(OP_REGISTER_EVENT_TIMER, fired_timer), (OP_DELETE_EVENT_TIMER, fired_timer)]"
          "[On_event_time fired_timer (Inr [])]"]
    timer_dispatch_by_kind
      [of "firing_timer_input 7"
          "\<lparr>timer_type = 7, encoded_key = [StrValue ''A''], encoded_namespace = '')0001,0[''\<rparr>"
          example_operation "''[0,1000)''" False "[(OP_REGISTER_EVENT_TIMER, fired_timer)]"
          "Inr []" "[(OP_REGISTER_EVENT_TIMER, fired_timer), (OP_DELETE_PROC_TIMER, fired_timer)]"
          "[On_processing_time fired_timer (Inr [])]"]
  by (simp add: example_run_defs)

end
